theory Spec2Isabelle
  imports Complex_Main "HOL-Library.Word" "HOL-Library.Char_ord" "HOL-Library.List_Lexorder"
begin

section \<open>Data model of the user interface (the \<open>script setup\<close> block)\<close>

text \<open>
  The interfaces of the script block, one record each. A \<open>string | null\<close> field is a
  \<open>string option\<close>; counts and sizes, which the backend sends as non-negative integers,
  are natural numbers. Strings are byte lists, so the Chinese texts of the source are
  written as their UTF-8 bytes.
\<close>

record EnvironmentInfo =
  exiftool_installed :: bool
  exiftool_version :: "string option"
  supported_formats :: "string list"

record TemplateInfo =
  ti_name :: string
  ti_template :: string

record RenameTemplateInfo =
  rti_name :: string
  rti_template :: string

record PhotoInfo =
  path :: string
  file_name :: string
  file_size :: nat
  date_time :: "string option"
  camera :: "string option"
  target_folder :: string
  is_duplicate :: bool
  duplicate_of :: "string option"

record ScanResult =
  total_files :: nat
  total_size :: nat
  photos :: "PhotoInfo list"

record ClassificationPreview =
  folder :: string
  file_count :: nat
  files :: "string list"

record TransferProgress =
  current :: nat
  total :: nat
  current_file :: string
  bytes_transferred :: nat
  total_bytes :: nat
  status :: string
  skipped_duplicates :: nat

record TransferResult =
  success_count :: nat
  skip_count :: nat
  error_count :: nat
  errors :: "string list"

record TransferRecord =
  id :: string
  timestamp :: string
  source_dir :: string
  target_dir :: string
  template :: string
  rec_total_files :: nat
  rec_success_count :: nat
  rec_skip_count :: nat
  rec_error_count :: nat
  rec_total_size :: nat
  duration_secs :: nat

record ThumbnailInfo =
  file_path :: string
  data :: string
  width :: nat
  height :: nat
  format :: string

record TemplateValidation =
  valid :: bool
  example :: string
  warnings :: "string list"
  supported_vars :: "string list"

subsection \<open>The interface declarations as data\<close>

text \<open>
  A TypeScript interface is erased at run time, so what fields a record type declares is
  a fact about the declaration. The two declarations of \<open>PhotoInfo\<close> (the one of the
  current script block and the one of the earlier \<open>App.vue\<close>) are kept as field lists,
  in the order of the source.
\<close>

datatype ts_type = TString | TNumber | TBoolean | TNullable ts_type | TArray ts_type





subsection \<open>Texts of the user interface\<close>


definition msg_no_target :: string where
  \<comment> \<open>the text set by \<open>startTransfer\<close> when no target folder is chosen\<close>
  "msg_no_target =
     [CHR 0xE8, CHR 0xAF, CHR 0xB7, CHR 0xE5, CHR 0x85, CHR 0x88, CHR 0xE9, CHR 0x80,
      CHR 0x89, CHR 0xE6, CHR 0x8B, CHR 0xA9, CHR 0xE7, CHR 0x9B, CHR 0xAE, CHR 0xE6,
      CHR 0xA0, CHR 0x87, CHR 0xE6, CHR 0x96, CHR 0x87, CHR 0xE4, CHR 0xBB, CHR 0xB6,
      CHR 0xE5, CHR 0xA4, CHR 0xB9]"

definition msg_no_photos :: string where
  \<comment> \<open>the text set by \<open>startTransfer\<close> when there is nothing to transfer\<close>
  "msg_no_photos =
     [CHR 0xE6, CHR 0xB2, CHR 0xA1, CHR 0xE6, CHR 0x9C, CHR 0x89, CHR 0xE5, CHR 0x8F,
      CHR 0xAF, CHR 0xE4, CHR 0xBC, CHR 0xA0, CHR 0xE8, CHR 0xBE, CHR 0x93, CHR 0xE7,
      CHR 0x9A, CHR 0x84, CHR 0xE7, CHR 0x85, CHR 0xA7, CHR 0xE7, CHR 0x89, CHR 0x87]"

definition msg_transfer_failed :: string where
  \<comment> \<open>the prefix of the text set when the \<open>start_transfer\<close> command is rejected\<close>
  "msg_transfer_failed =
     [CHR 0xE4, CHR 0xBC, CHR 0xA0, CHR 0xE8, CHR 0xBE, CHR 0x93, CHR 0xE5, CHR 0xA4,
      CHR 0xB1, CHR 0xE8, CHR 0xB4, CHR 0xA5, CHR 0x3A, CHR 0x20]"

definition msg_config_failed :: string where
  \<comment> \<open>the prefix of the text set when a configuration command is rejected\<close>
  "msg_config_failed =
     [CHR 0xE9, CHR 0x85, CHR 0x8D, CHR 0xE7, CHR 0xBD, CHR 0xAE, CHR 0xE6, CHR 0x9B,
      CHR 0xB4, CHR 0xE6, CHR 0x96, CHR 0xB0, CHR 0xE5, CHR 0xA4, CHR 0xB1, CHR 0xE8,
      CHR 0xB4, CHR 0xA5, CHR 0x3A, CHR 0x20]"

definition cancel_sentinel :: string where
  \<comment> \<open>the entry of \<open>errors\<close> the result view looks for to tell a cancelled run\<close>
  "cancel_sentinel =
     [CHR 0xE4, CHR 0xBC, CHR 0xA0, CHR 0xE8, CHR 0xBE, CHR 0x93, CHR 0xE5, CHR 0xB7,
      CHR 0xB2, CHR 0xE5, CHR 0x8F, CHR 0x96, CHR 0xE6, CHR 0xB6, CHR 0x88]"

section \<open>State of the user interface and the commands it sends\<close>

text \<open>
  Every \<open>invoke\<close> of the source sends one command to the backend. The backend is not
  part of the script block: its answers are a parameter (a rejected promise is \<open>Inl\<close>
  with the error's text), and the commands sent are logged in the ghost field
  \<open>invoked\<close>, newest last.
\<close>

datatype command =
    SetClassifyConfig string string
  | SetRenameConfig bool string nat nat
  | StartTransfer string bool
  | CancelTransfer
  | GetTransferHistory

record backend =
  set_classify_config :: "string \<Rightarrow> string \<Rightarrow> string + unit"
  set_rename_config :: "bool \<Rightarrow> string \<Rightarrow> nat \<Rightarrow> nat \<Rightarrow> string + unit"
  start_transfer_cmd :: "string \<Rightarrow> bool \<Rightarrow> string + TransferResult"
  cancel_transfer_cmd :: "string + unit"
  get_transfer_history :: "string + TransferRecord list"

record app_state =
  envInfo :: "EnvironmentInfo option"
  templates :: "TemplateInfo list"
  renameTemplates :: "RenameTemplateInfo list"
  selectedTemplate :: string
  customTemplate :: string
  customTemplateValidation :: "TemplateValidation option"
  fallbackFolder :: string
  sourceDir :: string
  targetDir :: string
  scanResult :: "ScanResult option"
  classificationPreview :: "ClassificationPreview list"
  skipDuplicates :: bool
  isScanning :: bool
  isTransferring :: bool
  transferProgress :: "TransferProgress option"
  transferResult :: "TransferResult option"
  errorMessage :: string
  activeTab :: string
  renameEnabled :: bool
  selectedRenameTemplate :: string
  customRenameTemplate :: string
  renameCounterStart :: nat
  renameCounterDigits :: nat
  transferHistory :: "TransferRecord list"
  showHistory :: bool
  thumbnails :: "ThumbnailInfo list"
  showThumbnails :: bool
  loadingThumbnails :: bool
  invoked :: "command list"

definition currentTemplate :: "app_state \<Rightarrow> string" where
  "currentTemplate s =
     (if selectedTemplate s = ''custom'' then customTemplate s
      else if selectedTemplate s \<noteq> [] then selectedTemplate s else ''{year}/{month}'')"

definition currentRenameTemplate :: "app_state \<Rightarrow> string" where
  "currentRenameTemplate s =
     (if selectedRenameTemplate s = ''custom'' then customRenameTemplate s
      else if selectedRenameTemplate s \<noteq> [] then selectedRenameTemplate s else ''{original}'')"

text \<open>
  The folder dialog answers with a path or with \<open>null\<close>; the source tests the answer for
  truthiness, so an empty path counts as no answer.
\<close>

definition selectSourceDir :: "string option \<Rightarrow> app_state \<Rightarrow> app_state" where
  "selectSourceDir selected s =
     (case selected of
        None \<Rightarrow> s
      | Some d \<Rightarrow>
          if d = [] then s
          else s\<lparr>sourceDir := d, scanResult := None, classificationPreview := [],
                 thumbnails := []\<rparr>)"

definition selectTargetDir :: "string option \<Rightarrow> app_state \<Rightarrow> app_state" where
  "selectTargetDir selected s =
     (case selected of
        None \<Rightarrow> s
      | Some d \<Rightarrow> if d = [] then s else s\<lparr>targetDir := d\<rparr>)"

definition updateConfig :: "backend \<Rightarrow> app_state \<Rightarrow> app_state" where
  "updateConfig b s =
     (let c1 = SetClassifyConfig (currentTemplate s) (fallbackFolder s);
          s1 = s\<lparr>invoked := invoked s @ [c1]\<rparr>
      in case set_classify_config b (currentTemplate s) (fallbackFolder s) of
           Inl e \<Rightarrow> s1\<lparr>errorMessage := msg_config_failed @ e\<rparr>
         | Inr _ \<Rightarrow>
             (let c2 = SetRenameConfig (renameEnabled s1) (currentRenameTemplate s1)
                         (renameCounterStart s1) (renameCounterDigits s1);
                  s2 = s1\<lparr>invoked := invoked s1 @ [c2]\<rparr>
              in case set_rename_config b (renameEnabled s1) (currentRenameTemplate s1)
                        (renameCounterStart s1) (renameCounterDigits s1) of
                   Inl e \<Rightarrow> s2\<lparr>errorMessage := msg_config_failed @ e\<rparr>
                 | Inr _ \<Rightarrow> s2))"

definition loadHistory :: "backend \<Rightarrow> app_state \<Rightarrow> app_state" where
  "loadHistory b s =
     (let s1 = s\<lparr>invoked := invoked s @ [GetTransferHistory]\<rparr>
      in case get_transfer_history b of
           Inl e \<Rightarrow> s1
         | Inr h \<Rightarrow> s1\<lparr>transferHistory := h\<rparr>)"

definition cancelTransfer :: "backend \<Rightarrow> app_state \<Rightarrow> app_state" where
  "cancelTransfer b s = s\<lparr>invoked := invoked s @ [CancelTransfer]\<rparr>"

text \<open>
  \<open>startTransfer\<close>: the two guards return early; past them the flag \<open>isTransferring\<close> is
  raised, the configuration is sent, the \<open>start_transfer\<close> command is sent, and the
  \<open>finally\<close> block lowers the flag again.
\<close>

definition startTransfer :: "backend \<Rightarrow> app_state \<Rightarrow> app_state" where
  "startTransfer b s =
     (if targetDir s = [] then s\<lparr>errorMessage := msg_no_target\<rparr>
      else if (case scanResult s of None \<Rightarrow> True | Some r \<Rightarrow> total_files r = 0)
      then s\<lparr>errorMessage := msg_no_photos\<rparr>
      else
        (let s1 = s\<lparr>isTransferring := True, errorMessage := [], transferResult := None,
                     transferProgress := None, activeTab := ''transfer''\<rparr>;
             s2 = updateConfig b s1;
             s3 = s2\<lparr>invoked := invoked s2 @ [StartTransfer (targetDir s2) (skipDuplicates s2)]\<rparr>;
             s4 = (case start_transfer_cmd b (targetDir s2) (skipDuplicates s2) of
                     Inl e \<Rightarrow> s3\<lparr>errorMessage := msg_transfer_failed @ e\<rparr>
                   | Inr r \<Rightarrow> loadHistory b (s3\<lparr>transferResult := Some r\<rparr>))
         in s4\<lparr>isTransferring := False\<rparr>))"

definition is_StartTransfer :: "command \<Rightarrow> bool" where
  "is_StartTransfer c = (case c of StartTransfer _ _ \<Rightarrow> True | _ \<Rightarrow> False)"

section \<open>Formatting and progress\<close>

subsection \<open>\<open>formatSize\<close>\<close>

text \<open>
  A byte count is a JavaScript number holding a non-negative integer. The divisors are
  powers of two, so for a count that the number type holds exactly (up to
  \<open>MAX_SAFE_INTEGER\<close>) the quotient \<open>bytes / GB\<close> is the exact rational, and
  \<open>toFixed(2)\<close> of a value below \<open>10^21\<close> prints the integer \<open>n\<close> nearest to a hundred
  times the value (the larger one on a tie) with a point before its last two digits.
\<close>

definition MAX_SAFE_INTEGER :: nat where
  "MAX_SAFE_INTEGER = 2 ^ 53 - 1"

definition KB :: nat where "KB = 1024"
definition MB :: nat where "MB = KB * 1024"
definition GB :: nat where "GB = MB * 1024"

definition digit_char :: "nat \<Rightarrow> char" where
  "digit_char d = ''0123456789'' ! (d mod 10)"

function string_of_nat :: "nat \<Rightarrow> string" where
  "string_of_nat n =
     (if n < 10 then [digit_char n] else string_of_nat (n div 10) @ [digit_char (n mod 10)])"
  by pat_completeness auto
termination
  by (relation "measure (\<lambda>n. n)") auto

declare string_of_nat.simps [simp del]

definition toFixed2 :: "rat \<Rightarrow> string" where
  "toFixed2 x =
     (let n = nat \<lfloor>x * 100 + 1 / 2\<rfloor>
      in string_of_nat (n div 100) @ ''.'' @ [digit_char (n div 10), digit_char n])"

definition formatSize :: "nat \<Rightarrow> string" where
  "formatSize bytes =
     (if bytes \<ge> GB then toFixed2 (of_nat bytes / of_nat GB) @ '' GB''
      else if bytes \<ge> MB then toFixed2 (of_nat bytes / of_nat MB) @ '' MB''
      else if bytes \<ge> KB then toFixed2 (of_nat bytes / of_nat KB) @ '' KB''
      else string_of_nat bytes @ '' B'')"

definition is_digit :: "char \<Rightarrow> bool" where
  "is_digit c = (c \<in> set ''0123456789'')"

text \<open>
  The shape "a number with two decimals, then the unit": at least one digit, a point, two
  digits, and the unit text at the end.
\<close>

definition two_decimals_with :: "string \<Rightarrow> string \<Rightarrow> bool" where
  "two_decimals_with unit_text s =
     (let k = length s - length unit_text; num = take k s; ip = take (k - 3) num
      in length unit_text + 4 \<le> length s \<and> drop k s = unit_text
         \<and> ip \<noteq> [] \<and> list_all is_digit ip
         \<and> num ! (k - 3) = CHR ''.'' \<and> is_digit (num ! (k - 2)) \<and> is_digit (num ! (k - 1)))"

subsection \<open>\<open>progressPercent\<close>\<close>

text \<open>
  JavaScript numbers with their three special values. The rounding of a real result into
  binary64 (which may overflow to an infinity) is the parameter \<open>fl\<close>: nothing below
  depends on how it rounds. \<open>current\<close> and \<open>total\<close> are non-negative integers; a zero
  divisor gives \<open>NaN\<close> for a zero dividend and \<open>Infinity\<close> for a positive one.
\<close>

datatype jsnum = Finite rat | PosInfinity | NegInfinity | NaN

definition js_div_nat :: "(rat \<Rightarrow> jsnum) \<Rightarrow> nat \<Rightarrow> nat \<Rightarrow> jsnum" where
  "js_div_nat fl a b =
     (if b = 0 then (if a = 0 then NaN else PosInfinity) else fl (of_nat a / of_nat b))"

definition js_mul_100 :: "(rat \<Rightarrow> jsnum) \<Rightarrow> jsnum \<Rightarrow> jsnum" where
  "js_mul_100 fl x =
     (case x of Finite r \<Rightarrow> fl (r * 100) | PosInfinity \<Rightarrow> PosInfinity
      | NegInfinity \<Rightarrow> NegInfinity | NaN \<Rightarrow> NaN)"

definition Math_round :: "jsnum \<Rightarrow> jsnum" where
  "Math_round x =
     (case x of Finite r \<Rightarrow> Finite (of_int \<lfloor>r + 1 / 2\<rfloor>) | PosInfinity \<Rightarrow> PosInfinity
      | NegInfinity \<Rightarrow> NegInfinity | NaN \<Rightarrow> NaN)"

definition progressPercent :: "(rat \<Rightarrow> jsnum) \<Rightarrow> app_state \<Rightarrow> jsnum" where
  "progressPercent fl s =
     (case transferProgress s of
        None \<Rightarrow> Finite 0
      | Some p \<Rightarrow> Math_round (js_mul_100 fl (js_div_nat fl (current p) (total p))))"

section \<open>The classification and transfer engine\<close>

text \<open>
  The engine behind the commands is not among the sources: only the user interface that
  calls it is. The definitions of this section follow the design document of the
  engine, component by component, and each says so.
\<close>

subsection \<open>PathClassifier\<close>

type_synonym byte = "8 word"

record timestamp =
  ts_year :: nat
  ts_month :: nat
  ts_day :: nat
  ts_hour :: nat
  ts_minute :: nat
  ts_second :: nat

record ClassifyConfig =
  cc_template :: string
  fallback_folder :: string

definition starts_with :: "string \<Rightarrow> string \<Rightarrow> bool" where
  "starts_with pat s = (take (length pat) s = pat)"

text \<open>Replacing every occurrence of a token, left to right and without overlap.\<close>

function replace_all :: "string \<Rightarrow> string \<Rightarrow> string \<Rightarrow> string" where
  "replace_all pat rep [] = []"
| "replace_all pat rep (c # cs) =
     (if pat \<noteq> [] \<and> starts_with pat (c # cs)
      then rep @ replace_all pat rep (drop (length pat) (c # cs))
      else c # replace_all pat rep cs)"
  by pat_completeness auto
termination
  by (relation "measure (\<lambda>(pat, rep, s). length s)") auto

definition zero_pad :: "nat \<Rightarrow> nat \<Rightarrow> string" where
  "zero_pad w n = replicate (w - length (string_of_nat n)) (CHR ''0'') @ string_of_nat n"

definition unknown_placeholder :: string where
  "unknown_placeholder = ''Unknown''"

definition or_unknown :: "string option \<Rightarrow> string" where
  "or_unknown v = (case v of None \<Rightarrow> unknown_placeholder | Some x \<Rightarrow> x)"

definition classify_path ::
  "timestamp option \<Rightarrow> string option \<Rightarrow> string option \<Rightarrow> string \<Rightarrow> string \<Rightarrow> string" where
  \<comment> \<open>Modelled from the spec: the PathClassifier of the engine, which is not among the
     sources. Without a date the whole result is the fallback folder; with one, the
     tokens \<open>{year}\<close> (4 digits), \<open>{month}\<close> and \<open>{day}\<close> (2 digits, zero-padded),
     \<open>{camera}\<close> and \<open>{make}\<close> (a fixed placeholder when absent) are substituted.\<close>
  "classify_path dt cam mk tmpl fallback =
     (case dt of
        None \<Rightarrow> fallback
      | Some d \<Rightarrow>
          replace_all ''{make}'' (or_unknown mk)
            (replace_all ''{camera}'' (or_unknown cam)
              (replace_all ''{day}'' (zero_pad 2 (ts_day d))
                (replace_all ''{month}'' (zero_pad 2 (ts_month d))
                  (replace_all ''{year}'' (zero_pad 4 (ts_year d)) tmpl)))))"

subsection \<open>The source tree\<close>

text \<open>
  What the engine reads: the files on disk, each with its path, its bytes, whether it
  can be read at scan time, what the metadata collaborator answers for it, and whether
  hashing it hits an I/O error; and the directories that can be opened.
\<close>

record metadata =
  md_date_time :: "timestamp option"
  md_camera :: "string option"
  md_make :: "string option"

record source_file =
  sf_path :: string
  sf_bytes :: "byte list"
  sf_readable :: bool
  sf_metadata :: metadata
  sf_hash_error :: bool

record file_system =
  accessible_dirs :: "string list"
  fs_files :: "source_file list"

definition find_file :: "file_system \<Rightarrow> string \<Rightarrow> source_file option" where
  "find_file fs p = find (\<lambda>f. sf_path f = p) (fs_files fs)"

definition bytes_at :: "file_system \<Rightarrow> string \<Rightarrow> byte list option" where
  "bytes_at fs p = map_option sf_bytes (find_file fs p)"

definition read_for_hash :: "file_system \<Rightarrow> string \<Rightarrow> byte list option" where
  "read_for_hash fs p =
     (case find_file fs p of
        None \<Rightarrow> None
      | Some f \<Rightarrow> if sf_hash_error f then None else Some (sf_bytes f))"


subsection \<open>ContentDeduplicator\<close>

record 'h hash_env =
  quick_hash :: "byte list \<Rightarrow> 'h"
  full_hash :: "byte list \<Rightarrow> 'h"

definition KiB64 :: nat where
  "KiB64 = 65536"

definition sample_regions :: "byte list \<Rightarrow> byte list list" where
  \<comment> \<open>Modelled from the spec: the regions the quick signature hashes, the first and the
     last 64 KiB, or the whole file when it is smaller than 128 KiB\<close>
  "sample_regions bs =
     (if length bs < 2 * KiB64 then [bs]
      else [take KiB64 bs, drop (length bs - KiB64) bs])"

definition quick_signature ::
  "'h hash_env \<Rightarrow> (string \<Rightarrow> byte list option) \<Rightarrow> PhotoInfo \<Rightarrow> (nat \<times> 'h list) option" where
  \<comment> \<open>Modelled from the spec: the size of the candidate and the hashes of its sampled
     regions; none when the file cannot be read for hashing\<close>
  "quick_signature h rd p =
     (case rd (path p) of
        None \<Rightarrow> None
      | Some bs \<Rightarrow> Some (file_size p, map (quick_hash h) (sample_regions bs)))"

definition group_size ::
  "'h hash_env \<Rightarrow> (string \<Rightarrow> byte list option) \<Rightarrow> PhotoInfo list \<Rightarrow> nat \<times> 'h list \<Rightarrow> nat" where
  "group_size h rd batch s = length (filter (\<lambda>q. quick_signature h rd q = Some s) batch)"

definition cluster_key ::
  "'h hash_env \<Rightarrow> (string \<Rightarrow> byte list option) \<Rightarrow> PhotoInfo list \<Rightarrow> PhotoInfo
     \<Rightarrow> ((nat \<times> 'h list) \<times> 'h) option" where
  \<comment> \<open>Modelled from the spec: what decides the cluster of a file, its quick signature
     and its full hash; the full hash is computed only in a group of two or more, and a
     file whose hashing fails has no key\<close>
  "cluster_key h rd batch p =
     (case quick_signature h rd p of
        None \<Rightarrow> None
      | Some s \<Rightarrow>
          if group_size h rd batch s < 2 then None
          else (case rd (path p) of
                  None \<Rightarrow> None
                | Some bs \<Rightarrow> Some (s, full_hash h bs)))"

fun dedup_loop ::
  "'h hash_env \<Rightarrow> (string \<Rightarrow> byte list option) \<Rightarrow> PhotoInfo list
     \<Rightarrow> (((nat \<times> 'h list) \<times> 'h) \<times> string) list \<Rightarrow> PhotoInfo list \<Rightarrow> PhotoInfo list" where
  \<comment> \<open>Modelled from the spec: one pass in scan order; \<open>seen\<close> maps the key of every
     cluster met so far to the path of its first file\<close>
  "dedup_loop h rd batch seen [] = []"
| "dedup_loop h rd batch seen (p # ps) =
     (case cluster_key h rd batch p of
        None \<Rightarrow> p # dedup_loop h rd batch seen ps
      | Some k \<Rightarrow>
          (case map_of seen k of
             Some rep \<Rightarrow>
               p\<lparr>is_duplicate := True, duplicate_of := Some rep\<rparr> # dedup_loop h rd batch seen ps
           | None \<Rightarrow> p # dedup_loop h rd batch ((k, path p) # seen) ps))"

definition mark_duplicates ::
  "'h hash_env \<Rightarrow> (string \<Rightarrow> byte list option) \<Rightarrow> PhotoInfo list \<Rightarrow> PhotoInfo list" where
  \<comment> \<open>Modelled from the spec: the ContentDeduplicator of the engine, which is not among
     the sources. Files are grouped by quick signature; inside a group of two or more the
     full hash decides; the first file of a cluster in scan order is its representative
     and every later one is marked a duplicate of it; a file whose hashing fails is left
     a non-duplicate.\<close>
  "mark_duplicates h rd ps = dedup_loop h rd ps [] ps"

subsection \<open>Scanner\<close>

datatype scan_error = SourceInaccessible

record scan_env =
  supported_extensions :: "string list"
  show_timestamp :: "timestamp \<Rightarrow> string"

definition to_lower :: "char \<Rightarrow> char" where
  "to_lower c =
     (case map_of (zip ''ABCDEFGHIJKLMNOPQRSTUVWXYZ'' ''abcdefghijklmnopqrstuvwxyz'') c of
        None \<Rightarrow> c
      | Some l \<Rightarrow> l)"

definition base_name :: "string \<Rightarrow> string" where
  "base_name p = rev (takeWhile (\<lambda>c. c \<noteq> CHR ''/'') (rev p))"

definition extension :: "string \<Rightarrow> string" where
  "extension p =
     (let n = base_name p
      in if CHR ''.'' \<in> set n then map to_lower (rev (takeWhile (\<lambda>c. c \<noteq> CHR ''.'') (rev n)))
         else [])"

definition is_under :: "string \<Rightarrow> string \<Rightarrow> bool" where
  "is_under dir p = (starts_with (dir @ ''/'') p \<and> length dir + 1 < length p)"

definition accepted :: "scan_env \<Rightarrow> string \<Rightarrow> source_file \<Rightarrow> bool" where
  "accepted se dir f =
     (is_under dir (sf_path f) \<and> extension (sf_path f) \<in> set (supported_extensions se))"

definition photo_of :: "scan_env \<Rightarrow> ClassifyConfig \<Rightarrow> source_file \<Rightarrow> PhotoInfo" where
  "photo_of se cfg f =
     \<lparr>path = sf_path f,
      file_name = base_name (sf_path f),
      file_size = length (sf_bytes f),
      date_time = map_option (show_timestamp se) (md_date_time (sf_metadata f)),
      camera = md_camera (sf_metadata f),
      target_folder =
        classify_path (md_date_time (sf_metadata f)) (md_camera (sf_metadata f))
          (md_make (sf_metadata f)) (cc_template cfg) (fallback_folder cfg),
      is_duplicate = False,
      duplicate_of = None\<rparr>"

fun scan_files :: "scan_env \<Rightarrow> ClassifyConfig \<Rightarrow> source_file list \<Rightarrow> ScanResult \<Rightarrow> ScanResult" where
  \<comment> \<open>Modelled from the spec: the loop over the accepted files; an unreadable file is
     skipped, a readable one is counted, its size added and its record appended\<close>
  "scan_files se cfg [] acc = acc"
| "scan_files se cfg (f # fs) acc =
     (if \<not> sf_readable f then scan_files se cfg fs acc
      else
        scan_files se cfg fs
          (acc\<lparr>total_files := total_files acc + 1,
               total_size := total_size acc + length (sf_bytes f),
               photos := photos acc @ [photo_of se cfg f]\<rparr>))"

definition candidates :: "scan_env \<Rightarrow> file_system \<Rightarrow> string \<Rightarrow> source_file list" where
  "candidates se fs dir = sort_key sf_path (filter (accepted se dir) (fs_files fs))"

definition scan ::
  "'h hash_env \<Rightarrow> scan_env \<Rightarrow> file_system \<Rightarrow> string \<Rightarrow> ClassifyConfig
     \<Rightarrow> scan_error + ScanResult" where
  \<comment> \<open>Modelled from the spec: the Scanner of the engine, which is not among the sources.
     An inaccessible root aborts the scan; otherwise the files under the root with a
     supported extension are visited in path order, an unreadable file is skipped, the
     counters are kept as the photos are collected, and the batch is handed to the
     deduplicator.\<close>
  "scan h se fs dir cfg =
     (if dir \<notin> set (accessible_dirs fs) then Inl SourceInaccessible
      else
        (let r = scan_files se cfg (candidates se fs dir)
                   \<lparr>total_files = 0, total_size = 0, photos = []\<rparr>
         in Inr (r\<lparr>photos := mark_duplicates h (read_for_hash fs) (photos r)\<rparr>)))"

subsection \<open>TransferOrchestrator\<close>

datatype phase = Idle | Scanning | Previewing | Transferring | Completed | Cancelled | Failed

datatype transfer_error = PreconditionFailed | TargetUncreatable

record RenameConfig =
  rc_enabled :: bool
  rc_template :: string
  counter_start :: nat
  counter_digits :: nat

record session =
  phase :: phase
  session_scan :: "ScanResult option"
  classify_config :: ClassifyConfig
  rename_config :: RenameConfig

text \<open>
  What a run meets outside the engine: the bytes a source path reads as (or a read
  failure), whether a destination path can be written, whether the target root can be
  created, the files already at the destination, the RenameEngine (template, photo,
  counter and digits to a file name), and the cancellation request. The request is
  \<open>Some k\<close> when \<open>cancel_transfer\<close> is called during the run after \<open>k\<close> files have
  passed their check point and before the next look at the flag: the flag is down at the
  checks of the first \<open>k\<close> files and up from then on. A call during the run has \<open>k\<close> at
  most the number of files of the batch; with \<open>k\<close> equal to it the call comes while the
  last file is being copied. A call when no transfer is active is a no-op: \<open>None\<close>.
\<close>

record 'h transfer_env =
  content_hash :: "byte list \<Rightarrow> 'h"
  read_source :: "string \<Rightarrow> byte list option"
  write_ok :: "string \<Rightarrow> bool"
  target_creatable :: "string \<Rightarrow> bool"
  dest_before :: "string \<Rightarrow> byte list option"
  rename_engine :: "string \<Rightarrow> PhotoInfo \<Rightarrow> nat \<Rightarrow> nat \<Rightarrow> string"
  cancel_request :: "nat option"

record run_state =
  run_result :: TransferResult
  run_phase :: phase
  dest_files :: "string \<Rightarrow> byte list option"
  counters :: "string \<Rightarrow> nat option"
  copied :: "string list"
  bytes_done :: nat
  skipped_dups :: nat
  progress :: "TransferProgress list"

definition cancel_flag :: "'h transfer_env \<Rightarrow> nat \<Rightarrow> bool" where
  \<comment> \<open>the flag as read once \<open>i\<close> files have passed their check point: before the
     file of index \<open>i\<close>, or after the last file when \<open>i\<close> is the number of files\<close>
  "cancel_flag env i = (case cancel_request env of None \<Rightarrow> False | Some k \<Rightarrow> k \<le> i)"

definition processed :: "run_state \<Rightarrow> nat" where
  "processed st =
     success_count (run_result st) + skip_count (run_result st) + error_count (run_result st)"

definition count_success :: "run_state \<Rightarrow> run_state" where
  "count_success st =
     st\<lparr>run_result := (run_result st)\<lparr>success_count := success_count (run_result st) + 1\<rparr>\<rparr>"

definition count_skip :: "run_state \<Rightarrow> run_state" where
  "count_skip st =
     st\<lparr>run_result := (run_result st)\<lparr>skip_count := skip_count (run_result st) + 1\<rparr>\<rparr>"

definition count_error :: "string \<Rightarrow> run_state \<Rightarrow> run_state" where
  "count_error e st =
     st\<lparr>run_result := (run_result st)\<lparr>error_count := error_count (run_result st) + 1,
                                       errors := errors (run_result st) @ [e]\<rparr>\<rparr>"

definition copy_error_text :: "PhotoInfo \<Rightarrow> string" where
  "copy_error_text p = ''copy failed: '' @ path p"

definition emit_progress :: "nat \<Rightarrow> nat \<Rightarrow> string \<Rightarrow> string \<Rightarrow> run_state \<Rightarrow> run_state" where
  "emit_progress n tb name st_text st =
     st\<lparr>progress := progress st @
          [\<lparr>current = processed st, total = n, current_file = name,
            bytes_transferred = bytes_done st, total_bytes = tb, status = st_text,
            skipped_duplicates = skipped_dups st\<rparr>]\<rparr>"

definition destination_name ::
  "'h transfer_env \<Rightarrow> RenameConfig \<Rightarrow> run_state \<Rightarrow> PhotoInfo \<Rightarrow> string \<times> run_state" where
  \<comment> \<open>Modelled from the spec: the counter is kept per destination folder, starts at
     \<open>counter_start\<close> and moves on by one for every file that is given a name in that
     folder\<close>
  "destination_name env rc st p =
     (if rc_enabled rc then
        (let c = (case counters st (target_folder p) of None \<Rightarrow> counter_start rc | Some c \<Rightarrow> c)
         in (rename_engine env (rc_template rc) p c (counter_digits rc),
             st\<lparr>counters := (counters st)(target_folder p \<mapsto> c + 1)\<rparr>))
      else (file_name p, st))"

definition copy_file ::
  "'h transfer_env \<Rightarrow> string \<Rightarrow> PhotoInfo \<Rightarrow> run_state \<Rightarrow> run_state" where
  \<comment> \<open>Modelled from the spec: read the source, leave the destination alone when it
     already holds the same content, else write a temporary file and rename it into
     place; a failed read or write is recorded and counted\<close>
  "copy_file env dest p st =
     (case read_source env (path p) of
        None \<Rightarrow> count_error (copy_error_text p) st
      | Some bs \<Rightarrow>
          if (case dest_files st dest of
                None \<Rightarrow> False
              | Some old \<Rightarrow> content_hash env old = content_hash env bs)
          then count_skip st
          else if \<not> write_ok env dest then count_error (copy_error_text p) st
          else count_success
                 (st\<lparr>dest_files := (dest_files st)(dest \<mapsto> bs),
                     copied := copied st @ [path p],
                     bytes_done := bytes_done st + length bs\<rparr>))"

definition process_file ::
  "'h transfer_env \<Rightarrow> RenameConfig \<Rightarrow> string \<Rightarrow> bool \<Rightarrow> nat \<Rightarrow> nat \<Rightarrow> run_state \<Rightarrow> PhotoInfo
     \<Rightarrow> run_state" where
  \<comment> \<open>Modelled from the spec: one file of the run; a duplicate is skipped when duplicates
     are to be skipped, any other file is named and copied, and a progress update follows\<close>
  "process_file env rc tdir skip_dup n tb st p =
     emit_progress n tb (file_name p) ''transferring''
       (if skip_dup \<and> is_duplicate p
        then count_skip (st\<lparr>skipped_dups := skipped_dups st + 1\<rparr>)
        else
          (case destination_name env rc st p of
             (name, st1) \<Rightarrow>
               copy_file env (tdir @ ''/'' @ target_folder p @ ''/'' @ name) p st1))"

definition finish_cancelled :: "nat \<Rightarrow> nat \<Rightarrow> run_state \<Rightarrow> run_state" where
  "finish_cancelled n tb st =
     emit_progress n tb [] ''cancelled''
       (st\<lparr>run_result := (run_result st)\<lparr>errors := errors (run_result st) @ [cancel_sentinel]\<rparr>,
           run_phase := Cancelled\<rparr>)"

definition finish_completed :: "nat \<Rightarrow> nat \<Rightarrow> run_state \<Rightarrow> run_state" where
  "finish_completed n tb st = emit_progress n tb [] ''completed'' (st\<lparr>run_phase := Completed\<rparr>)"

fun transfer_loop ::
  "'h transfer_env \<Rightarrow> RenameConfig \<Rightarrow> string \<Rightarrow> bool \<Rightarrow> nat \<Rightarrow> nat \<Rightarrow> nat \<Rightarrow> run_state
     \<Rightarrow> PhotoInfo list \<Rightarrow> run_state" where
  \<comment> \<open>Modelled from the spec: the loop over the photos in scan order; \<open>i\<close> is the index
     of the next file, whose check point comes before anything is done for it. A copy in
     flight runs to completion before a cancellation takes effect, so a request made
     while the last file is copied takes effect when that copy is done: the flag is read
     once more before the run is declared completed.\<close>
  "transfer_loop env rc tdir skip_dup n tb i st [] =
     (if cancel_flag env i then finish_cancelled n tb st else finish_completed n tb st)"
| "transfer_loop env rc tdir skip_dup n tb i st (p # ps) =
     (if cancel_flag env i then finish_cancelled n tb st
      else transfer_loop env rc tdir skip_dup n tb (Suc i)
             (process_file env rc tdir skip_dup n tb st p) ps)"

text \<open>The work on a list of files when no cancellation check stops it.\<close>

definition process_files ::
  "'h transfer_env \<Rightarrow> RenameConfig \<Rightarrow> string \<Rightarrow> bool \<Rightarrow> nat \<Rightarrow> nat \<Rightarrow> run_state
     \<Rightarrow> PhotoInfo list \<Rightarrow> run_state" where
  "process_files env rc tdir skip_dup n tb st ps =
     foldl (process_file env rc tdir skip_dup n tb) st ps"

definition initial_run :: "'h transfer_env \<Rightarrow> run_state" where
  "initial_run env =
     \<lparr>run_result = \<lparr>success_count = 0, skip_count = 0, error_count = 0, errors = []\<rparr>,
      run_phase = Transferring,
      dest_files = dest_before env,
      counters = Map.empty,
      copied = [],
      bytes_done = 0,
      skipped_dups = 0,
      progress = []\<rparr>"

definition start_transfer ::
  "'h transfer_env \<Rightarrow> session \<Rightarrow> string \<Rightarrow> bool \<Rightarrow> transfer_error + session \<times> run_state" where
  \<comment> \<open>Modelled from the spec: the TransferOrchestrator of the engine, which is not among
     the sources. A run needs a scanned batch in the previewing state and a target root
     that can be created; it visits the photos in scan order, checks the cancellation
     flag before each file and before it declares the run completed, counts every file
     it handles once (success, skip or error), and ends completed or cancelled.\<close>
  "start_transfer env sess tdir skip_dup =
     (case session_scan sess of
        None \<Rightarrow> Inl PreconditionFailed
      | Some sr \<Rightarrow>
          if phase sess \<noteq> Previewing then Inl PreconditionFailed
          else if \<not> target_creatable env tdir then Inl TargetUncreatable
          else
            (let st = transfer_loop env (rename_config sess) tdir skip_dup
                        (total_files sr) (total_size sr) 0 (initial_run env) (photos sr)
             in Inr (sess\<lparr>phase := run_phase st\<rparr>, st)))"

definition scan_source ::
  "'h hash_env \<Rightarrow> scan_env \<Rightarrow> file_system \<Rightarrow> string \<Rightarrow> session \<Rightarrow> scan_error + session" where
  \<comment> \<open>a successful scan leaves its result in the session, which is then previewing\<close>
  "scan_source h se fs dir sess =
     (case scan h se fs dir (classify_config sess) of
        Inl e \<Rightarrow> Inl e
      | Inr r \<Rightarrow> Inr (sess\<lparr>phase := Previewing, session_scan := Some r\<rparr>))"

section \<open>Concrete states and inputs\<close>

definition default_fallback_folder :: string where
  \<comment> \<open>the initial text of \<open>fallbackFolder\<close>\<close>
  "default_fallback_folder =
     [CHR 0xE6, CHR 0x9C, CHR 0xAA, CHR 0xE7, CHR 0x9F, CHR 0xA5, CHR 0xE6, CHR 0x97,
      CHR 0xA5, CHR 0xE6, CHR 0x9C, CHR 0x9F]"

definition initial_app_state :: app_state where
  \<comment> \<open>the initial values of the refs of the script block\<close>
  "initial_app_state =
     \<lparr>envInfo = None, templates = [], renameTemplates = [], selectedTemplate = [],
      customTemplate = ''{year}/{month}'', customTemplateValidation = None,
      fallbackFolder = default_fallback_folder, sourceDir = [], targetDir = [],
      scanResult = None, classificationPreview = [], skipDuplicates = True,
      isScanning = False, isTransferring = False, transferProgress = None,
      transferResult = None, errorMessage = [], activeTab = ''config'',
      renameEnabled = False, selectedRenameTemplate = ''{original}'',
      customRenameTemplate = ''{date}_{original}'', renameCounterStart = 1,
      renameCounterDigits = 4, transferHistory = [], showHistory = False,
      thumbnails = [], showThumbnails = False, loadingThumbnails = False,
      invoked = []\<rparr>"

definition example_hash_env :: "(byte list) hash_env" where
  \<comment> \<open>a hash without collisions: the bytes themselves\<close>
  "example_hash_env = \<lparr>quick_hash = (\<lambda>bs. bs), full_hash = (\<lambda>bs. bs)\<rparr>"

definition example_scan_env :: scan_env where
  "example_scan_env =
     \<lparr>supported_extensions = [''jpg'', ''cr3''],
      show_timestamp = (\<lambda>t. zero_pad 4 (ts_year t) @ ''-'' @ zero_pad 2 (ts_month t) @ ''-''
                            @ zero_pad 2 (ts_day t))\<rparr>"

definition example_config :: ClassifyConfig where
  "example_config = \<lparr>cc_template = ''{year}/{month}'', fallback_folder = ''Unknown''\<rparr>"

definition example_date :: timestamp where
  "example_date =
     \<lparr>ts_year = 2024, ts_month = 3, ts_day = 15, ts_hour = 10, ts_minute = 30, ts_second = 0\<rparr>"

definition file_a :: source_file where
  "file_a =
     \<lparr>sf_path = ''/sd/a.jpg'', sf_bytes = [1, 2, 3], sf_readable = True,
      sf_metadata = \<lparr>md_date_time = Some example_date, md_camera = Some ''EOS R5'',
                     md_make = Some ''Canon''\<rparr>,
      sf_hash_error = False\<rparr>"

definition file_b :: source_file where
  \<comment> \<open>the same bytes as \<open>file_a\<close>, no date\<close>
  "file_b =
     \<lparr>sf_path = ''/sd/b.JPG'', sf_bytes = [1, 2, 3], sf_readable = True,
      sf_metadata = \<lparr>md_date_time = None, md_camera = None, md_make = None\<rparr>,
      sf_hash_error = False\<rparr>"

definition file_c :: source_file where
  "file_c =
     \<lparr>sf_path = ''/sd/c.cr3'', sf_bytes = [9], sf_readable = True,
      sf_metadata = \<lparr>md_date_time = Some example_date, md_camera = None, md_make = None\<rparr>,
      sf_hash_error = False\<rparr>"

definition file_notes :: source_file where
  "file_notes =
     \<lparr>sf_path = ''/sd/notes.txt'', sf_bytes = [7, 7], sf_readable = True,
      sf_metadata = \<lparr>md_date_time = None, md_camera = None, md_make = None\<rparr>,
      sf_hash_error = False\<rparr>"

definition example_fs :: file_system where
  "example_fs = \<lparr>accessible_dirs = [''/sd''], fs_files = [file_c, file_notes, file_b, file_a]\<rparr>"






definition photo_a :: PhotoInfo where
  "photo_a =
     \<lparr>path = ''/sd/a.jpg'', file_name = ''a.jpg'', file_size = 3, date_time = Some ''2024-03-15'',
      camera = Some ''EOS R5'', target_folder = ''2024/03'', is_duplicate = False,
      duplicate_of = None\<rparr>"

definition photo_b :: PhotoInfo where
  "photo_b =
     \<lparr>path = ''/sd/b.JPG'', file_name = ''b.JPG'', file_size = 3, date_time = None,
      camera = None, target_folder = ''Unknown'', is_duplicate = False,
      duplicate_of = None\<rparr>"

definition photo_c :: PhotoInfo where
  "photo_c =
     \<lparr>path = ''/sd/c.cr3'', file_name = ''c.cr3'', file_size = 1, date_time = Some ''2024-03-15'',
      camera = None, target_folder = ''2024/03'', is_duplicate = False,
      duplicate_of = None\<rparr>"

definition example_scan_result :: ScanResult where
  "example_scan_result =
     \<lparr>total_files = 3, total_size = 7,
      photos = [photo_a, photo_b\<lparr>is_duplicate := True, duplicate_of := Some ''/sd/a.jpg''\<rparr>,
                photo_c]\<rparr>"

definition example_session :: session where
  "example_session =
     \<lparr>phase = Idle, session_scan = None, classify_config = example_config,
      rename_config = \<lparr>rc_enabled = False, rc_template = ''{original}'', counter_start = 1,
                       counter_digits = 4\<rparr>\<rparr>"

definition example_transfer_env :: "nat option \<Rightarrow> (byte list) transfer_env" where
  \<comment> \<open>an empty destination, every read and write succeeds; the argument is the
     cancellation request\<close>
  "example_transfer_env req =
     \<lparr>content_hash = (\<lambda>bs. bs),
      read_source = bytes_at example_fs,
      write_ok = (\<lambda>p. True),
      target_creatable = (\<lambda>p. True),
      dest_before = Map.empty,
      rename_engine = (\<lambda>t p c d. file_name p),
      cancel_request = req\<rparr>"

section \<open>Properties of the user interface\<close>

text \<open>
  Claim C10. Choosing a source folder stores it and clears what was derived from the
  last scan (\<open>scanResult\<close>, \<open>classificationPreview\<close>, \<open>thumbnails\<close>); the target
  folder, the configuration and the transfer history stay as they are. Choosing a
  target folder changes \<open>targetDir\<close> and nothing else.
\<close>

theorem select_dir_frame:
  assumes "d \<noteq> []"
  shows "selectSourceDir (Some d) s
           = s\<lparr>sourceDir := d, scanResult := None, classificationPreview := [], thumbnails := []\<rparr>
       \<and> targetDir (selectSourceDir (Some d) s) = targetDir s
       \<and> transferHistory (selectSourceDir (Some d) s) = transferHistory s
       \<and> currentTemplate (selectSourceDir (Some d) s) = currentTemplate s
       \<and> fallbackFolder (selectSourceDir (Some d) s) = fallbackFolder s
       \<and> currentRenameTemplate (selectSourceDir (Some d) s) = currentRenameTemplate s
       \<and> skipDuplicates (selectSourceDir (Some d) s) = skipDuplicates s
       \<and> selectTargetDir (Some d) s = s\<lparr>targetDir := d\<rparr>
       \<and> scanResult (selectTargetDir (Some d) s) = scanResult s
       \<and> classificationPreview (selectTargetDir (Some d) s) = classificationPreview s
       \<and> thumbnails (selectTargetDir (Some d) s) = thumbnails s"
  using assms
  by (simp add: selectSourceDir_def selectTargetDir_def currentTemplate_def
      currentRenameTemplate_def)

theorem select_dir_frame_witness:
  "selectSourceDir (Some ''/sd/DCIM'')
      (initial_app_state\<lparr>targetDir := ''/nas'', thumbnails := [\<lparr>file_path = ''a'', data = ''b'', width = 1, height = 1, format = ''image/jpeg''\<rparr>]\<rparr>)
     = initial_app_state\<lparr>targetDir := ''/nas'', sourceDir := ''/sd/DCIM''\<rparr>
   \<and> selectTargetDir (Some ''/nas2'') (initial_app_state\<lparr>targetDir := ''/nas''\<rparr>)
     = initial_app_state\<lparr>targetDir := ''/nas2''\<rparr>"
  using select_dir_frame [of "''/sd/DCIM''" "initial_app_state\<lparr>targetDir := ''/nas'', thumbnails := [\<lparr>file_path = ''a'', data = ''b'', width = 1, height = 1, format = ''image/jpeg''\<rparr>]\<rparr>"]
    select_dir_frame [of "''/nas2''" "initial_app_state\<lparr>targetDir := ''/nas''\<rparr>"]
  by (simp add: initial_app_state_def)

text \<open>
  Claim C5. Without a scan result, or with one of zero files, \<open>startTransfer\<close> only sets
  the error text (that of the missing target folder when that guard comes first, else
  that of the missing photos): no command is sent to the backend, \<open>isTransferring\<close> is
  not raised and no result is stored.
\<close>

theorem startTransfer_requires_scan:
  assumes "scanResult s = None \<or> (\<exists>r. scanResult s = Some r \<and> total_files r = 0)"
  shows "startTransfer b s
           = s\<lparr>errorMessage := (if targetDir s = [] then msg_no_target else msg_no_photos)\<rparr>
       \<and> errorMessage (startTransfer b s) \<noteq> []
       \<and> invoked (startTransfer b s) = invoked s
       \<and> \<not> list_ex is_StartTransfer (drop (length (invoked s)) (invoked (startTransfer b s)))
       \<and> isTransferring (startTransfer b s) = isTransferring s
       \<and> transferResult (startTransfer b s) = transferResult s"
  using assms
  by (auto simp: startTransfer_def msg_no_target_def msg_no_photos_def)

theorem startTransfer_requires_scan_witness:
  "\<forall>b. startTransfer b (initial_app_state\<lparr>targetDir := ''/nas''\<rparr>)
         = initial_app_state\<lparr>targetDir := ''/nas'', errorMessage := msg_no_photos\<rparr>
     \<and> startTransfer b
          (initial_app_state\<lparr>targetDir := ''/nas'',
             scanResult := Some \<lparr>total_files = 0, total_size = 0, photos = []\<rparr>\<rparr>)
         = initial_app_state\<lparr>targetDir := ''/nas'',
             scanResult := Some \<lparr>total_files = 0, total_size = 0, photos = []\<rparr>,
             errorMessage := msg_no_photos\<rparr>"
proof
  fix b
  show "startTransfer b (initial_app_state\<lparr>targetDir := ''/nas''\<rparr>)
         = initial_app_state\<lparr>targetDir := ''/nas'', errorMessage := msg_no_photos\<rparr>
     \<and> startTransfer b
          (initial_app_state\<lparr>targetDir := ''/nas'',
             scanResult := Some \<lparr>total_files = 0, total_size = 0, photos = []\<rparr>\<rparr>)
         = initial_app_state\<lparr>targetDir := ''/nas'',
             scanResult := Some \<lparr>total_files = 0, total_size = 0, photos = []\<rparr>,
             errorMessage := msg_no_photos\<rparr>"
    using startTransfer_requires_scan [of "initial_app_state\<lparr>targetDir := ''/nas''\<rparr>" b]
      startTransfer_requires_scan [of "initial_app_state\<lparr>targetDir := ''/nas'',
             scanResult := Some \<lparr>total_files = 0, total_size = 0, photos = []\<rparr>\<rparr>" b]
    by (simp add: initial_app_state_def)
qed

text \<open>
  Claim C9. The percentage divides \<open>current\<close> by \<open>total\<close> with no guard for a zero
  total: for a progress snapshot of the data model (\<open>current\<close> at most \<open>total\<close>) whose
  total is zero the result is \<open>NaN\<close>, not zero and not an error.
\<close>

theorem progressPercent_zero_total:
  assumes "transferProgress s = Some p" and "total p = 0" and "current p \<le> total p"
  shows "progressPercent fl s = NaN"
  using assms
  by (simp add: progressPercent_def js_div_nat_def js_mul_100_def Math_round_def)

text \<open>
  Outside the data model (a zero total with a positive \<open>current\<close>) the same division
  gives \<open>Infinity\<close>.
\<close>

lemma progressPercent_zero_total_positive_current:
  assumes "transferProgress s = Some p" and "total p = 0" and "0 < current p"
  shows "progressPercent fl s = PosInfinity"
  using assms
  by (simp add: progressPercent_def js_div_nat_def js_mul_100_def Math_round_def)

theorem progressPercent_zero_total_witness:
  "\<forall>fl. progressPercent fl
     (initial_app_state\<lparr>transferProgress :=
        Some \<lparr>current = 0, total = 0, current_file = [], bytes_transferred = 0,
              total_bytes = 0, status = ''transferring'', skipped_duplicates = 0\<rparr>\<rparr>) = NaN"
proof
  fix fl
  show "progressPercent fl
     (initial_app_state\<lparr>transferProgress :=
        Some \<lparr>current = 0, total = 0, current_file = [], bytes_transferred = 0,
              total_bytes = 0, status = ''transferring'', skipped_duplicates = 0\<rparr>\<rparr>) = NaN"
    using progressPercent_zero_total [of "initial_app_state\<lparr>transferProgress :=
        Some \<lparr>current = 0, total = 0, current_file = [], bytes_transferred = 0,
              total_bytes = 0, status = ''transferring'', skipped_duplicates = 0\<rparr>\<rparr>"
        "\<lparr>current = 0, total = 0, current_file = [], bytes_transferred = 0,
              total_bytes = 0, status = ''transferring'', skipped_duplicates = 0\<rparr>" fl]
    by simp
qed

subsection \<open>The forms of \<open>formatSize\<close>\<close>

lemma is_digit_digit_char: "is_digit (digit_char d)"
proof -
  have "d mod 10 < length ''0123456789''" by simp
  then have "''0123456789'' ! (d mod 10) \<in> set ''0123456789''" by (rule nth_mem)
  then show ?thesis unfolding is_digit_def digit_char_def .
qed

lemma string_of_nat_digits: "list_all is_digit (string_of_nat n) \<and> string_of_nat n \<noteq> []"
proof (induction n rule: string_of_nat.induct)
  case (1 n)
  show ?case
  proof (cases "n < 10")
    case True
    then show ?thesis by (simp add: string_of_nat.simps [of n] is_digit_digit_char)
  next
    case False
    with 1 show ?thesis by (simp add: string_of_nat.simps [of n] is_digit_digit_char)
  qed
qed

lemma toFixed2_shape:
  "\<exists>ip a b. toFixed2 x = ip @ [CHR ''.'', a, b] \<and> ip \<noteq> [] \<and> list_all is_digit ip
     \<and> is_digit a \<and> is_digit b"
  unfolding toFixed2_def Let_def
  using string_of_nat_digits is_digit_digit_char by auto

lemma two_decimals_with_shape:
  assumes "ip \<noteq> []" "list_all is_digit ip" "is_digit a" "is_digit b"
  shows "two_decimals_with u (ip @ [CHR ''.'', a, b] @ u)"
proof -
  let ?num = "ip @ [CHR ''.'', a, b]"
  let ?s = "?num @ u"
  have k: "length ?s - length u = length ?num" by simp
  have n3: "length ?num - 3 = length ip" and n2: "length ?num - 2 = length ip + 1"
    and n1: "length ?num - 1 = length ip + 2" by simp_all
  have t: "take (length ?num) ?s = ?num" and d: "drop (length ?num) ?s = u" by simp_all
  have ip: "take (length ip) ?num = ip" by simp
  have "?num ! length ip = CHR ''.''" by (simp add: nth_append)
  moreover have "?num ! (length ip + 1) = a" by (simp add: nth_append)
  moreover have "?num ! (length ip + 2) = b" by (simp add: nth_append)
  moreover have "length u + 4 \<le> length ?s" using assms(1) by (cases ip) simp_all
  ultimately have "two_decimals_with u ?s"
    unfolding two_decimals_with_def Let_def k t d n3 n2 n1 ip
    using assms by simp
  then show ?thesis by simp
qed

lemma two_decimals_with_toFixed2: "two_decimals_with u (toFixed2 x @ u)"
proof -
  obtain ip a b where "toFixed2 x = ip @ [CHR ''.'', a, b]" "ip \<noteq> []" "list_all is_digit ip"
    "is_digit a" "is_digit b"
    using toFixed2_shape by blast
  then show ?thesis using two_decimals_with_shape [of ip a b u] by simp
qed

lemma two_decimals_with_suffix:
  "two_decimals_with u s \<Longrightarrow> \<exists>t. s = t @ u"
proof -
  assume "two_decimals_with u s"
  then have "drop (length s - length u) s = u"
    by (simp add: two_decimals_with_def Let_def)
  then have "s = take (length s - length u) s @ u"
    by (metis append_take_drop_id)
  then show ?thesis ..
qed

lemma unit_mismatch:
  assumes "length u = length v" "u \<noteq> v"
  shows "\<not> two_decimals_with u (t @ v)"
proof
  assume "two_decimals_with u (t @ v)"
  then obtain t' where "t @ v = t' @ u" using two_decimals_with_suffix by blast
  with assms show False by (simp add: append_eq_append_conv)
qed

lemma byte_form_not_two_decimals:
  assumes "length u = 3"
  shows "\<not> two_decimals_with u (string_of_nat n @ '' B'')"
proof
  assume a: "two_decimals_with u (string_of_nat n @ '' B'')"
  let ?d = "string_of_nat n"
  have d: "?d \<noteq> []" "list_all is_digit ?d" using string_of_nat_digits by auto
  let ?s = "?d @ '' B''"
  let ?k = "length ?s - length u"
  have k: "?k = length ?d - 1" using assms by simp
  from a have "is_digit (take ?k ?s ! (?k - 1))"
    unfolding two_decimals_with_def Let_def by simp
  moreover from a have "length u + 4 \<le> length ?s"
    unfolding two_decimals_with_def Let_def by simp
  then have len: "5 \<le> length ?d" using assms by simp
  from a have "drop ?k ?s = u" unfolding two_decimals_with_def Let_def by simp
  then have "u = drop (length ?d - 1) ?d @ '' B''" using k d by simp
  then have "length u = length (drop (length ?d - 1) ?d) + 2" by simp
  then have "length u = 3" using d by (simp add: assms)
  from a have dot: "take ?k ?s ! (?k - 3) = CHR ''.''"
    unfolding two_decimals_with_def Let_def by simp
  have "?k - 3 < length ?d" using len k by simp
  then have "take ?k ?s ! (?k - 3) = ?d ! (?k - 3)" using k len by (simp add: nth_append)
  moreover have "is_digit (?d ! (?k - 3))"
    using d(2) \<open>?k - 3 < length ?d\<close> by (simp add: list_all_length)
  ultimately have "is_digit (CHR ''.'')" using dot by simp
  then show False by (simp add: is_digit_def)
qed

lemma byte_form_distinct:
  assumes "length v = 3" "v ! 1 \<noteq> CHR '' ''"
  shows "t @ v \<noteq> string_of_nat n @ '' B''"
proof
  assume e: "t @ v = string_of_nat n @ '' B''"
  from assms(1) obtain a b c where v: "v = [a, b, c]"
    by (cases v; cases "tl v"; cases "tl (tl v)") auto
  from e have "(t @ [a]) @ [b, c] = string_of_nat n @ '' B''" using v by simp
  then have "t @ [a] = string_of_nat n \<and> [b, c] = '' B''"
    by (subst (asm) append_eq_append_conv) simp_all
  then show False using assms(2) v by simp
qed

text \<open>
  Claim C8. For a byte count the number type holds exactly, \<open>formatSize\<close> gives a number
  with two decimals and \<open>GB\<close> exactly from \<open>1024^3\<close> on, with \<open>MB\<close> exactly from
  \<open>1024^2\<close> up to that, with \<open>KB\<close> exactly from \<open>1024\<close> up to that, and the byte count
  itself followed by \<open>B\<close> exactly below \<open>1024\<close>; one and only one of the four forms
  is produced.
\<close>

theorem formatSize_forms:
  assumes "bytes \<le> MAX_SAFE_INTEGER"
  shows "(two_decimals_with '' GB'' (formatSize bytes) \<longleftrightarrow> 1024 ^ 3 \<le> bytes)
       \<and> (two_decimals_with '' MB'' (formatSize bytes) \<longleftrightarrow> 1024 ^ 2 \<le> bytes \<and> bytes < 1024 ^ 3)
       \<and> (two_decimals_with '' KB'' (formatSize bytes) \<longleftrightarrow> 1024 \<le> bytes \<and> bytes < 1024 ^ 2)
       \<and> (formatSize bytes = string_of_nat bytes @ '' B'' \<longleftrightarrow> bytes < 1024)
       \<and> length (filter (\<lambda>holds. holds)
            [two_decimals_with '' GB'' (formatSize bytes),
             two_decimals_with '' MB'' (formatSize bytes),
             two_decimals_with '' KB'' (formatSize bytes),
             formatSize bytes = string_of_nat bytes @ '' B'']) = 1"
proof -
  have c: "KB = 1024" "MB = 1024 ^ 2" "GB = 1024 ^ 3" by (simp_all add: KB_def MB_def GB_def)
  consider (g) "GB \<le> bytes" | (m) "MB \<le> bytes" "bytes < GB" | (k) "KB \<le> bytes" "bytes < MB"
    | (b) "bytes < KB" by linarith
  then show ?thesis
  proof cases
    case g
    then have f: "formatSize bytes = toFixed2 (of_nat bytes / of_nat GB) @ '' GB''"
      by (simp add: formatSize_def)
    have 1: "two_decimals_with '' GB'' (formatSize bytes)" using f two_decimals_with_toFixed2 by simp
    have 2: "\<not> two_decimals_with '' MB'' (formatSize bytes)" using f unit_mismatch [of "'' MB''" "'' GB''"] by simp
    have 3: "\<not> two_decimals_with '' KB'' (formatSize bytes)" using f unit_mismatch [of "'' KB''" "'' GB''"] by simp
    have 4: "formatSize bytes \<noteq> string_of_nat bytes @ '' B''" using f byte_form_distinct [of "'' GB''"] by simp
    from g c have "1024 ^ 3 \<le> bytes" by simp
    with 1 2 3 4 show ?thesis by simp
  next
    case m
    then have f: "formatSize bytes = toFixed2 (of_nat bytes / of_nat MB) @ '' MB''"
      by (simp add: formatSize_def)
    have 1: "two_decimals_with '' MB'' (formatSize bytes)" using f two_decimals_with_toFixed2 by simp
    have 2: "\<not> two_decimals_with '' GB'' (formatSize bytes)" using f unit_mismatch [of "'' GB''" "'' MB''"] by simp
    have 3: "\<not> two_decimals_with '' KB'' (formatSize bytes)" using f unit_mismatch [of "'' KB''" "'' MB''"] by simp
    have 4: "formatSize bytes \<noteq> string_of_nat bytes @ '' B''" using f byte_form_distinct [of "'' MB''"] by simp
    from m c have "1024 ^ 2 \<le> bytes" "bytes < 1024 ^ 3" by simp_all
    with 1 2 3 4 show ?thesis by simp
  next
    case k
    then have "bytes < GB" by (simp add: c)
    with k have f: "formatSize bytes = toFixed2 (of_nat bytes / of_nat KB) @ '' KB''"
      by (simp add: formatSize_def)
    have 1: "two_decimals_with '' KB'' (formatSize bytes)" using f two_decimals_with_toFixed2 by simp
    have 2: "\<not> two_decimals_with '' GB'' (formatSize bytes)" using f unit_mismatch [of "'' GB''" "'' KB''"] by simp
    have 3: "\<not> two_decimals_with '' MB'' (formatSize bytes)" using f unit_mismatch [of "'' MB''" "'' KB''"] by simp
    have 4: "formatSize bytes \<noteq> string_of_nat bytes @ '' B''" using f byte_form_distinct [of "'' KB''"] by simp
    from k c have "1024 \<le> bytes" "bytes < 1024 ^ 2" by simp_all
    with 1 2 3 4 show ?thesis by simp
  next
    case b
    then have "bytes < MB" "bytes < GB" by (simp_all add: c)
    with b have f: "formatSize bytes = string_of_nat bytes @ '' B''"
      by (simp add: formatSize_def)
    have 1: "\<not> two_decimals_with '' GB'' (formatSize bytes)" using f byte_form_not_two_decimals [of "'' GB''"] by simp
    have 2: "\<not> two_decimals_with '' MB'' (formatSize bytes)" using f byte_form_not_two_decimals [of "'' MB''"] by simp
    have 3: "\<not> two_decimals_with '' KB'' (formatSize bytes)" using f byte_form_not_two_decimals [of "'' KB''"] by simp
    from b c have "bytes < 1024" by simp
    with 1 2 3 f show ?thesis by simp
  qed
qed

lemma string_of_nat_small: "n < 10 \<Longrightarrow> string_of_nat n = [digit_char n]"
  by (simp add: string_of_nat.simps [of n])

lemma string_of_nat_step:
  "10 \<le> n \<Longrightarrow> string_of_nat n = string_of_nat (n div 10) @ [digit_char (n mod 10)]"
  by (simp add: string_of_nat.simps [of n])

lemma toFixed2_quotient:
  assumes "0 < d"
  shows "toFixed2 (of_nat b / of_nat d) =
     (let n = (200 * b + d) div (2 * d)
      in string_of_nat (n div 100) @ ''.'' @ [digit_char (n div 10), digit_char n])"
proof -
  have "(of_nat b / of_nat d :: rat) * 100 + 1 / 2 = of_nat (200 * b + d) / of_nat (2 * d)"
    using assms by (simp add: field_simps)
  then have "\<lfloor>(of_nat b / of_nat d :: rat) * 100 + 1 / 2\<rfloor> = int ((200 * b + d) div (2 * d))"
    by (simp only: floor_divide_of_nat_eq)
  then show ?thesis by (simp add: toFixed2_def Let_def)
qed

lemma formatSize_1536: "formatSize 1536 = ''1.50 KB''"
proof -
  have "toFixed2 (of_nat 1536 / of_nat KB) = ''1.50''"
    unfolding KB_def
    by (subst toFixed2_quotient)
      (simp_all add: Let_def string_of_nat_small string_of_nat_step digit_char_def)
  moreover have "formatSize 1536 = toFixed2 (of_nat 1536 / of_nat KB) @ '' KB''"
    unfolding formatSize_def by (simp add: KB_def MB_def GB_def)
  ultimately show ?thesis by simp
qed

theorem formatSize_forms_witness:
  "(1536::nat) \<le> MAX_SAFE_INTEGER \<and> formatSize 1536 = ''1.50 KB''
   \<and> two_decimals_with '' KB'' (formatSize 1536)
   \<and> \<not> two_decimals_with '' MB'' (formatSize 1536)
   \<and> \<not> two_decimals_with '' GB'' (formatSize 1536)
   \<and> formatSize 1536 \<noteq> string_of_nat 1536 @ '' B''"
proof -
  have h: "(1536::nat) \<le> MAX_SAFE_INTEGER" by (simp add: MAX_SAFE_INTEGER_def)
  from formatSize_forms [OF h] h formatSize_1536 show ?thesis by simp
qed

section \<open>Properties of the engine\<close>

subsection \<open>The example evaluated\<close>

lemmas eval_digits = string_of_nat_small string_of_nat_step digit_char_def zero_pad_def

lemma cands: "candidates example_scan_env example_fs ''/sd'' = [file_a, file_b, file_c]"
  by (simp add: candidates_def example_fs_def example_scan_env_def accepted_def is_under_def
      starts_with_def extension_def base_name_def to_lower_def file_a_def file_b_def file_c_def
      file_notes_def)

lemma photos_of_examples:
  "photo_of example_scan_env example_config file_a = photo_a"
  "photo_of example_scan_env example_config file_b = photo_b"
  "photo_of example_scan_env example_config file_c = photo_c"
  by (simp_all add: photo_of_def example_scan_env_def example_config_def file_a_def file_b_def
      file_c_def photo_a_def photo_b_def photo_c_def example_date_def base_name_def
      classify_path_def starts_with_def eval_digits)

lemma scan_files_example:
  "scan_files example_scan_env example_config [file_a, file_b, file_c]
     \<lparr>total_files = 0, total_size = 0, photos = []\<rparr>
   = \<lparr>total_files = 3, total_size = 7, photos = [photo_a, photo_b, photo_c]\<rparr>"
  by (simp add: photos_of_examples) (simp add: file_a_def file_b_def file_c_def)

lemma read_example:
  "read_for_hash example_fs ''/sd/a.jpg'' = Some [1, 2, 3]"
  "read_for_hash example_fs ''/sd/b.JPG'' = Some [1, 2, 3]"
  "read_for_hash example_fs ''/sd/c.cr3'' = Some [9]"
  by (simp_all add: read_for_hash_def find_file_def example_fs_def file_a_def file_b_def
      file_c_def file_notes_def)

lemma bytes_example:
  "bytes_at example_fs ''/sd/a.jpg'' = Some [1, 2, 3]"
  "bytes_at example_fs ''/sd/b.JPG'' = Some [1, 2, 3]"
  "bytes_at example_fs ''/sd/c.cr3'' = Some [9]"
  by (simp_all add: bytes_at_def find_file_def example_fs_def file_a_def file_b_def
      file_c_def file_notes_def)

lemma quick_signature_example:
  "quick_signature example_hash_env (read_for_hash example_fs) photo_a = Some (3, [[1, 2, 3]])"
  "quick_signature example_hash_env (read_for_hash example_fs) photo_b = Some (3, [[1, 2, 3]])"
  "quick_signature example_hash_env (read_for_hash example_fs) photo_c = Some (1, [[9]])"
  by (simp_all add: quick_signature_def photo_a_def photo_b_def photo_c_def read_example
      example_hash_env_def sample_regions_def KiB64_def)

lemma cluster_key_example:
  "cluster_key example_hash_env (read_for_hash example_fs) [photo_a, photo_b, photo_c] photo_a
     = Some ((3, [[1, 2, 3]]), [1, 2, 3])"
  "cluster_key example_hash_env (read_for_hash example_fs) [photo_a, photo_b, photo_c] photo_b
     = Some ((3, [[1, 2, 3]]), [1, 2, 3])"
  "cluster_key example_hash_env (read_for_hash example_fs) [photo_a, photo_b, photo_c] photo_c
     = None"
  by (simp_all add: cluster_key_def group_size_def quick_signature_example)
     (simp_all add: photo_a_def photo_b_def read_example example_hash_env_def)

lemma mark_duplicates_example:
  "mark_duplicates example_hash_env (read_for_hash example_fs) [photo_a, photo_b, photo_c]
     = [photo_a, photo_b\<lparr>is_duplicate := True, duplicate_of := Some ''/sd/a.jpg''\<rparr>, photo_c]"
  by (simp add: mark_duplicates_def cluster_key_example) (simp add: photo_a_def)

lemma scan_example:
  "scan example_hash_env example_scan_env example_fs ''/sd'' example_config
     = Inr example_scan_result"
proof -
  have "''/sd'' \<in> set (accessible_dirs example_fs)" by (simp add: example_fs_def)
  then show ?thesis
    unfolding scan_def Let_def cands scan_files_example
    by (simp add: mark_duplicates_example example_scan_result_def)
qed


lemma scan_source_example:
  "scan_source example_hash_env example_scan_env example_fs ''/sd'' example_session
     = Inr (example_session\<lparr>phase := Previewing, session_scan := Some example_scan_result\<rparr>)"
proof -
  have "classify_config example_session = example_config" by (simp add: example_session_def)
  then show ?thesis by (simp add: scan_source_def scan_example)
qed

lemmas run_defs = cancel_flag_def process_file_def emit_progress_def destination_name_def
  copy_file_def count_success_def count_skip_def count_error_def initial_run_def
  finish_cancelled_def finish_completed_def processed_def

lemma start_transfer_example:
  "start_transfer (example_transfer_env req)
     (example_session\<lparr>phase := Previewing, session_scan := Some example_scan_result\<rparr>)
     ''/nas'' True
   = Inr (example_session\<lparr>phase := run_phase
            (transfer_loop (example_transfer_env req) (rename_config example_session) ''/nas''
               True 3 7 0 (initial_run (example_transfer_env req)) (photos example_scan_result)),
             session_scan := Some example_scan_result\<rparr>,
          transfer_loop (example_transfer_env req) (rename_config example_session) ''/nas''
               True 3 7 0 (initial_run (example_transfer_env req)) (photos example_scan_result))"
  by (simp add: start_transfer_def Let_def example_transfer_env_def example_scan_result_def)

lemma run_example_complete:
  "run_phase (transfer_loop (example_transfer_env None) (rename_config example_session)
           ''/nas'' True 3 7 0 (initial_run (example_transfer_env None))
           (photos example_scan_result)) = Completed"
  "run_result (transfer_loop (example_transfer_env None) (rename_config example_session)
           ''/nas'' True 3 7 0 (initial_run (example_transfer_env None))
           (photos example_scan_result))
         = \<lparr>success_count = 2, skip_count = 1, error_count = 0, errors = []\<rparr>"
  by (simp_all add: run_defs example_transfer_env_def example_scan_result_def
      example_session_def photo_a_def photo_b_def photo_c_def bytes_example)


lemma run_example_cancelled:
  "run_phase (transfer_loop (example_transfer_env (Some 1)) (rename_config example_session)
           ''/nas'' True 3 7 0 (initial_run (example_transfer_env (Some 1)))
           (photos example_scan_result)) = Cancelled"
  "run_result (transfer_loop (example_transfer_env (Some 1)) (rename_config example_session)
           ''/nas'' True 3 7 0 (initial_run (example_transfer_env (Some 1)))
           (photos example_scan_result))
         = \<lparr>success_count = 1, skip_count = 0, error_count = 0, errors = [cancel_sentinel]\<rparr>"
  "copied (transfer_loop (example_transfer_env (Some 1)) (rename_config example_session)
           ''/nas'' True 3 7 0 (initial_run (example_transfer_env (Some 1)))
           (photos example_scan_result)) = [''/sd/a.jpg'']"
  "dest_files (transfer_loop (example_transfer_env (Some 1)) (rename_config example_session)
           ''/nas'' True 3 7 0 (initial_run (example_transfer_env (Some 1)))
           (photos example_scan_result)) ''/nas/2024/03/a.jpg'' = Some [1, 2, 3]"
  "dest_files (transfer_loop (example_transfer_env (Some 1)) (rename_config example_session)
           ''/nas'' True 3 7 0 (initial_run (example_transfer_env (Some 1)))
           (photos example_scan_result)) ''/nas/2024/03/c.cr3'' = None"
  by (simp_all add: run_defs example_transfer_env_def example_scan_result_def example_session_def
      photo_a_def photo_b_def photo_c_def bytes_example)

subsection \<open>PathClassifier\<close>

text \<open>
  Claim C6. The folder is a function of the date, the camera, the make, the template
  and the fallback folder, and the scanner computes \<open>target_folder\<close> from these five
  alone. Without a date the whole result is the fallback folder, whatever the template;
  the template \<open>{year}/{month}\<close> with a photo dated 2024-03-15 gives \<open>2024/03\<close>.
\<close>

theorem classify_path_fallback_and_example:
  "classify_path None cam mk tmpl fb = fb
   \<and> classify_path (Some \<lparr>ts_year = 2024, ts_month = 3, ts_day = 15, ts_hour = hh,
                          ts_minute = mi, ts_second = ss\<rparr>) cam mk ''{year}/{month}'' fb
       = ''2024/03''
   \<and> target_folder (photo_of se cfg f)
       = classify_path (md_date_time (sf_metadata f)) (md_camera (sf_metadata f))
           (md_make (sf_metadata f)) (cc_template cfg) (fallback_folder cfg)"
  by (simp add: classify_path_def starts_with_def eval_digits photo_of_def)

theorem classify_path_fallback_and_example_witness:
  "classify_path None (Some ''EOS R5'') (Some ''Canon'') ''{year}/{month}'' ''Unknown'' = ''Unknown''
   \<and> classify_path (Some example_date) (Some ''EOS R5'') (Some ''Canon'') ''{year}/{month}''
        ''Unknown'' = ''2024/03''
   \<and> target_folder (photo_of example_scan_env example_config file_a) = ''2024/03''
   \<and> target_folder (photo_of example_scan_env example_config file_b) = ''Unknown''"
proof -
  note t = classify_path_fallback_and_example [of "Some ''EOS R5''" "Some ''Canon''"
      "''{year}/{month}''" "''Unknown''" 10 30 0 example_scan_env example_config file_a]
  have 1: "classify_path None (Some ''EOS R5'') (Some ''Canon'') ''{year}/{month}'' ''Unknown''
             = ''Unknown''"
    using t by (rule conjunct1)
  have 2: "classify_path (Some example_date) (Some ''EOS R5'') (Some ''Canon'')
             ''{year}/{month}'' ''Unknown'' = ''2024/03''"
    unfolding example_date_def using t by (elim conjE)
  have 3: "target_folder (photo_of example_scan_env example_config file_a) = ''2024/03''"
    "target_folder (photo_of example_scan_env example_config file_b) = ''Unknown''"
    by (simp_all add: photos_of_examples photo_a_def photo_b_def)
  from 1 2 3 show ?thesis by (intro conjI)
qed

subsection \<open>The make value\<close>



subsection \<open>The counts of a scan\<close>

lemma dedup_loop_length: "length (dedup_loop h rd batch seen ps) = length ps"
  by (induction ps arbitrary: seen) (auto split: option.splits)

lemma dedup_loop_file_size:
  "map file_size (dedup_loop h rd batch seen ps) = map file_size ps"
  by (induction ps arbitrary: seen) (auto split: option.splits)


lemma scan_files_counts:
  assumes "total_files acc = length (photos acc)"
    and "total_size acc = sum_list (map file_size (photos acc))"
  shows "total_files (scan_files se cfg fs acc) = length (photos (scan_files se cfg fs acc))
       \<and> total_size (scan_files se cfg fs acc)
           = sum_list (map file_size (photos (scan_files se cfg fs acc)))"
  using assms
proof (induction fs arbitrary: acc)
  case Nil
  then show ?case by simp
next
  case (Cons f fs)
  show ?case
  proof (cases "sf_readable f")
    case False
    then show ?thesis using Cons by simp
  next
    case True
    let ?acc = "acc\<lparr>total_files := total_files acc + 1,
                    total_size := total_size acc + length (sf_bytes f),
                    photos := photos acc @ [photo_of se cfg f]\<rparr>"
    have "total_files ?acc = length (photos ?acc)" using Cons.prems by simp
    moreover have "total_size ?acc = sum_list (map file_size (photos ?acc))"
      using Cons.prems by (simp add: photo_of_def)
    ultimately show ?thesis using Cons.IH [of ?acc] True by simp
  qed
qed

lemma scan_total_files:
  assumes "scan h se fs dir cfg = Inr r"
  shows "total_files r = length (photos r)"
proof -
  let ?r0 = "scan_files se cfg (candidates se fs dir) \<lparr>total_files = 0, total_size = 0, photos = []\<rparr>"
  from assms have r: "r = ?r0\<lparr>photos := mark_duplicates h (read_for_hash fs) (photos ?r0)\<rparr>"
    by (auto simp: scan_def Let_def split: if_splits)
  have "total_files ?r0 = length (photos ?r0)"
    using scan_files_counts [of "\<lparr>total_files = 0, total_size = 0, photos = []\<rparr>" se cfg
        "candidates se fs dir"] by simp
  then show ?thesis by (simp add: r mark_duplicates_def dedup_loop_length)
qed

text \<open>
  Claim C1. In every result of a scan, \<open>total_files\<close> is the length of \<open>photos\<close> and
  \<open>total_size\<close> is the sum of their \<open>file_size\<close>.
\<close>

theorem scan_result_invariant:
  assumes "scan h se fs dir cfg = Inr r"
  shows "total_files r = length (photos r)
       \<and> total_size r = sum_list (map file_size (photos r))"
proof -
  let ?r0 = "scan_files se cfg (candidates se fs dir) \<lparr>total_files = 0, total_size = 0, photos = []\<rparr>"
  from assms have r: "r = ?r0\<lparr>photos := mark_duplicates h (read_for_hash fs) (photos ?r0)\<rparr>"
    by (auto simp: scan_def Let_def split: if_splits)
  have c: "total_files ?r0 = length (photos ?r0)
         \<and> total_size ?r0 = sum_list (map file_size (photos ?r0))"
    by (rule scan_files_counts) simp_all
  have "length (photos r) = length (photos ?r0)"
    by (simp add: r mark_duplicates_def dedup_loop_length)
  moreover have "map file_size (photos r) = map file_size (photos ?r0)"
    by (simp add: r mark_duplicates_def dedup_loop_file_size)
  moreover have "total_files r = total_files ?r0" "total_size r = total_size ?r0"
    by (simp_all add: r)
  ultimately show ?thesis using c by simp
qed

theorem scan_result_invariant_witness:
  "scan example_hash_env example_scan_env example_fs ''/sd'' example_config
     = Inr example_scan_result
   \<and> total_files example_scan_result = 3 \<and> length (photos example_scan_result) = 3
   \<and> total_size example_scan_result = 7
   \<and> sum_list (map file_size (photos example_scan_result)) = 7"
  using scan_result_invariant [OF scan_example] scan_example
  by (simp add: example_scan_result_def)

subsection \<open>The counters of a run\<close>

lemma processed_emit_progress [simp]:
  "processed (emit_progress n tb name txt st) = processed st"
  by (simp add: processed_def emit_progress_def)

lemma processed_count [simp]:
  "processed (count_success st) = processed st + 1"
  "processed (count_skip st) = processed st + 1"
  "processed (count_error e st) = processed st + 1"
  by (simp_all add: processed_def count_success_def count_skip_def count_error_def)

lemma processed_other_fields [simp]:
  "processed (st\<lparr>skipped_dups := a\<rparr>) = processed st"
  "processed (st\<lparr>run_phase := b\<rparr>) = processed st"
  "processed (st\<lparr>counters := c\<rparr>) = processed st"
  "processed (st\<lparr>dest_files := d\<rparr>) = processed st"
  "processed (st\<lparr>copied := e\<rparr>) = processed st"
  "processed (st\<lparr>bytes_done := f\<rparr>) = processed st"
  by (simp_all add: processed_def)

lemma processed_copy_file: "processed (copy_file env dest p st) = processed st + 1"
  by (simp add: copy_file_def split: option.splits)

lemma processed_destination_name:
  "processed (snd (destination_name env rc st p)) = processed st"
  by (simp add: destination_name_def Let_def)

lemma processed_process_file:
  "processed (process_file env rc tdir skip_dup n tb st p) = processed st + 1"
proof (cases "skip_dup \<and> is_duplicate p")
  case True
  then show ?thesis by (simp add: process_file_def)
next
  case False
  obtain name st1 where d: "destination_name env rc st p = (name, st1)" by force
  then have "processed st1 = processed st" using processed_destination_name [of env rc st p] by simp
  with False d show ?thesis by (auto simp: process_file_def processed_copy_file)
qed

lemma run_phase_finish [simp]:
  "run_phase (finish_cancelled n tb st) = Cancelled"
  "run_phase (finish_completed n tb st) = Completed"
  by (simp_all add: finish_cancelled_def finish_completed_def emit_progress_def)

lemma processed_finish [simp]:
  "processed (finish_cancelled n tb st) = processed st"
  "processed (finish_completed n tb st) = processed st"
  by (simp_all add: finish_cancelled_def finish_completed_def) (simp add: processed_def)

lemma transfer_loop_processed:
  "processed (transfer_loop env rc tdir skip_dup n tb i st ps) \<le> processed st + length ps
   \<and> (run_phase (transfer_loop env rc tdir skip_dup n tb i st ps) \<noteq> Cancelled
        \<longrightarrow> processed (transfer_loop env rc tdir skip_dup n tb i st ps) = processed st + length ps)
   \<and> run_phase (transfer_loop env rc tdir skip_dup n tb i st ps) \<in> {Completed, Cancelled}"
proof (induction ps arbitrary: i st)
  case Nil
  show ?case by (cases "cancel_flag env i") simp_all
next
  case (Cons p ps)
  show ?case
  proof (cases "cancel_flag env i")
    case True
    then show ?thesis by simp
  next
    case False
    then show ?thesis
      using Cons.IH [of "Suc i" "process_file env rc tdir skip_dup n tb st p"]
      by (simp add: processed_process_file)
  qed
qed

lemma processed_initial_run: "processed (initial_run env) = 0"
  by (simp add: processed_def initial_run_def)

text \<open>
  Claim C3. A run over a scanned batch ends completed or cancelled; the sum of
  \<open>success_count\<close>, \<open>skip_count\<close> and \<open>error_count\<close> is at most the batch's
  \<open>total_files\<close>, and equals it when the run was not cancelled.
\<close>

theorem transfer_counts_bounded:
  assumes "scan_source h se fs dir sess0 = Inr sess"
    and "start_transfer env sess tdir skip_dup = Inr (sess', st)"
  shows "\<exists>sr. session_scan sess = Some sr
          \<and> run_phase st \<in> {Completed, Cancelled}
          \<and> success_count (run_result st) + skip_count (run_result st)
               + error_count (run_result st) \<le> total_files sr
          \<and> (run_phase st \<noteq> Cancelled \<longrightarrow>
               success_count (run_result st) + skip_count (run_result st)
                 + error_count (run_result st) = total_files sr)"
proof -
  from assms(1) obtain sr where sc: "scan h se fs dir (classify_config sess0) = Inr sr"
    and sess: "sess = sess0\<lparr>phase := Previewing, session_scan := Some sr\<rparr>"
    by (auto simp: scan_source_def split: sum.splits)
  have n: "total_files sr = length (photos sr)" using sc by (rule scan_total_files)
  let ?st = "transfer_loop env (rename_config sess) tdir skip_dup (total_files sr)
               (total_size sr) 0 (initial_run env) (photos sr)"
  from assms(2) sess have st: "st = ?st"
    by (auto simp: start_transfer_def Let_def split: if_splits)
  have "processed ?st \<le> processed (initial_run env) + length (photos sr)
      \<and> (run_phase ?st \<noteq> Cancelled \<longrightarrow> processed ?st = processed (initial_run env) + length (photos sr))
      \<and> run_phase ?st \<in> {Completed, Cancelled}"
    by (rule transfer_loop_processed)
  then have "processed st \<le> total_files sr
      \<and> (run_phase st \<noteq> Cancelled \<longrightarrow> processed st = total_files sr)
      \<and> run_phase st \<in> {Completed, Cancelled}"
    using st n by (simp add: processed_initial_run)
  then show ?thesis using sess by (simp add: processed_def)
qed

theorem transfer_counts_bounded_witness:
  "scan_source example_hash_env example_scan_env example_fs ''/sd'' example_session
     = Inr (example_session\<lparr>phase := Previewing, session_scan := Some example_scan_result\<rparr>)
   \<and> total_files example_scan_result = 3
   \<and> (\<exists>sess' st.
        start_transfer (example_transfer_env None)
          (example_session\<lparr>phase := Previewing, session_scan := Some example_scan_result\<rparr>)
          ''/nas'' True = Inr (sess', st)
        \<and> run_phase st = Completed
        \<and> run_result st = \<lparr>success_count = 2, skip_count = 1, error_count = 0, errors = []\<rparr>)
   \<and> (\<exists>sess' st.
        start_transfer (example_transfer_env (Some 1))
          (example_session\<lparr>phase := Previewing, session_scan := Some example_scan_result\<rparr>)
          ''/nas'' True = Inr (sess', st)
        \<and> run_phase st = Cancelled
        \<and> success_count (run_result st) + skip_count (run_result st)
             + error_count (run_result st) = 1)"
  using transfer_counts_bounded [OF scan_source_example start_transfer_example [of None]]
    transfer_counts_bounded [OF scan_source_example start_transfer_example [of "Some 1"]]
    scan_source_example start_transfer_example [of None] start_transfer_example [of "Some 1"]
    run_example_complete run_example_cancelled
  by (simp add: example_scan_result_def)

subsection \<open>Cancellation\<close>


text \<open>A run that never sees the flag handles every file and ends completed.\<close>

lemma transfer_loop_not_seen:
  assumes "\<forall>j \<le> length ps. \<not> cancel_flag env (i + j)"
  shows "transfer_loop env rc tdir skip_dup n tb i st ps
           = finish_completed n tb (process_files env rc tdir skip_dup n tb st ps)"
  using assms
proof (induction ps arbitrary: i st)
  case Nil
  then show ?case by (simp add: process_files_def)
next
  case (Cons p ps)
  from Cons.prems have "\<not> cancel_flag env i" by force
  moreover have "\<forall>j \<le> length ps. \<not> cancel_flag env (Suc i + j)"
    using Cons.prems by force
  ultimately show ?case using Cons.IH [of "Suc i"] by (simp add: process_files_def)
qed







subsection \<open>Duplicates\<close>































end
